theory Spec2Isabelle
  imports Complex_Main "HOL-Library.Multiset"
begin

section \<open>VidCutter: the clip timeline and the export pipeline of \<^verbatim>\<open>vidcutter.py\<close>\<close>

text \<open>
  The development embeds the methods of class \<^verbatim>\<open>VidCutter\<close> that keep the clip list
  (\<^verbatim>\<open>cutStart\<close>, \<^verbatim>\<open>cutEnd\<close>, \<^verbatim>\<open>moveItemUp\<close>, \<^verbatim>\<open>moveItemDown\<close>, \<^verbatim>\<open>removeItem\<close>,
  \<^verbatim>\<open>clearList\<close>, \<^verbatim>\<open>syncClipList\<close>, \<^verbatim>\<open>renderTimes\<close>, \<^verbatim>\<open>itemMenu\<close>, \<^verbatim>\<open>mousePressEvent\<close>) and
  that export it (\<^verbatim>\<open>deltaToQTime\<close>, \<^verbatim>\<open>cutVideo\<close>, \<^verbatim>\<open>joinVideos\<close>). Methods that mutate
  \<^verbatim>\<open>self\<close> take the state and return the new one; what a method reads from a widget or
  from the media player (the selected row, the playback position, the name chosen in the
  save dialog) is an argument; an exception is the left injection of a sum.
\<close>

subsection \<open>Python values\<close>

datatype error = IndexError | TypeError | InvalidEndTime

text \<open>
  \<^verbatim>\<open>IndexError\<close> and \<^verbatim>\<open>TypeError\<close> are the Python exceptions; \<^verbatim>\<open>InvalidEndTime\<close> is the
  early return of \<^verbatim>\<open>cutEnd\<close> behind its critical message box `Invalid END Time'.
\<close>

definition py_index :: "'a list \<Rightarrow> int \<Rightarrow> nat option" where
  \<comment> \<open>a subscript counted from the end when negative; \<open>None\<close> when out of range\<close>
  "py_index xs i =
     (let n = int (length xs); j = (if i < 0 then i + n else i)
      in if 0 \<le> j \<and> j < n then Some (nat j) else None)"

definition py_getitem :: "'a list \<Rightarrow> int \<Rightarrow> error + 'a" where
  "py_getitem xs i = (case py_index xs i of None \<Rightarrow> Inl IndexError | Some j \<Rightarrow> Inr (xs ! j))"

definition py_delitem :: "'a list \<Rightarrow> int \<Rightarrow> error + 'a list" where
  "py_delitem xs i =
     (case py_index xs i of None \<Rightarrow> Inl IndexError
      | Some j \<Rightarrow> Inr (take j xs @ drop (Suc j) xs))"

definition py_pop :: "'a list \<Rightarrow> int \<Rightarrow> error + ('a \<times> 'a list)" where
  "py_pop xs i =
     (case py_index xs i of None \<Rightarrow> Inl IndexError
      | Some j \<Rightarrow> Inr (xs ! j, take j xs @ drop (Suc j) xs))"

definition py_insert :: "'a list \<Rightarrow> int \<Rightarrow> 'a \<Rightarrow> 'a list" where
  \<comment> \<open>\<^verbatim>\<open>list.insert\<close> never raises: the position is clamped to \<open>0 .. len\<close>\<close>
  "py_insert xs i x =
     (let n = int (length xs);
          j = (if i < 0 then max 0 (i + n) else min i n)
      in take (nat j) xs @ [x] @ drop (nat j) xs)"

subsection \<open>Python floats\<close>

text \<open>
  The file runs under \<^verbatim>\<open>python3\<close>, where \<^verbatim>\<open>/\<close> on integers is true division: the
  arithmetic of \<^verbatim>\<open>deltaToQTime\<close> is IEEE 754 binary64. A finite double is the rational
  number it denotes, and every operation rounds its exact result to the nearest double,
  ties to even. Overflow to infinity is not modelled (no value here comes near
  \<open>2 ^ 1024\<close>). The paths are those of \<^verbatim>\<open>posixpath\<close>.
\<close>

function bit_length :: "int \<Rightarrow> int" where
  "bit_length n = (if n \<le> 0 then 0 else 1 + bit_length (n div 2))"
  by pat_completeness auto
termination
  by (relation "measure nat") auto

definition pow2 :: "int \<Rightarrow> rat" where
  "pow2 e = (if 0 \<le> e then 2 ^ nat e else 1 / 2 ^ nat (- e))"

definition floor_log2 :: "rat \<Rightarrow> int" where
  \<comment> \<open>for \<open>0 < x\<close>: the \<open>e\<close> with \<open>2 ^ e \<le> x < 2 ^ (e + 1)\<close>\<close>
  "floor_log2 x =
     (let (p, q) = quotient_of x;
          d = bit_length p - bit_length q
      in if pow2 d \<le> x then d else d - 1)"

definition round_half_even :: "rat \<Rightarrow> int" where
  "round_half_even x =
     (let f = \<lfloor>x\<rfloor>; d = x - of_int f
      in if d < 1 / 2 then f else if 1 / 2 < d then f + 1
         else if even f then f else f + 1)"

definition binary64 :: "rat \<Rightarrow> rat" where
  \<comment> \<open>53 significant bits, the least exponent that of the subnormals\<close>
  "binary64 x =
     (if x = 0 then 0
      else let u = pow2 (max (floor_log2 \<bar>x\<bar> - 52) (- 1074))
           in of_int (round_half_even (x / u)) * u)"

definition py_truediv :: "rat \<Rightarrow> rat \<Rightarrow> rat" where
  "py_truediv x y = binary64 (x / y)"

definition py_mul :: "rat \<Rightarrow> rat \<Rightarrow> rat" where
  "py_mul x y = binary64 (x * y)"

definition py_int :: "rat \<Rightarrow> int" where
  \<comment> \<open>\<^verbatim>\<open>float.__int__\<close>, truncation towards zero: how the binding converts a float
      handed to an integer parameter of \<^verbatim>\<open>QTime\<close> (with a deprecation warning in later
      versions of Python, and the file turns all warnings off)\<close>
  "py_int x = (if 0 \<le> x then \<lfloor>x\<rfloor> else \<lceil>x\<rceil>)"

definition c_fmod :: "rat \<Rightarrow> rat \<Rightarrow> rat" where
  \<comment> \<open>C's \<^verbatim>\<open>fmod\<close>: exact, with the sign of the dividend\<close>
  "c_fmod x y = x - y * of_int (py_int (x / y))"

definition py_mod :: "rat \<Rightarrow> rat \<Rightarrow> rat" where
  \<comment> \<open>\<^verbatim>\<open>float.__mod__\<close>: \<^verbatim>\<open>fmod\<close>, moved to the sign of the divisor\<close>
  "py_mod x y =
     (let m = c_fmod x y
      in if m \<noteq> 0 \<and> ((y < 0) \<noteq> (m < 0)) then binary64 (m + y) else m)"

subsection \<open>Python strings\<close>

definition digit_char :: "nat \<Rightarrow> char" where
  "digit_char d = ''0123456789'' ! d"

fun decimal :: "nat \<Rightarrow> string" where
  "decimal n = (if n < 10 then [digit_char n] else decimal (n div 10) @ [digit_char (n mod 10)])"

definition rjust2 :: "string \<Rightarrow> string" where
  \<comment> \<open>the format \<^verbatim>\<open>{0:0>2}\<close>: right-aligned in two columns, filled with \<^verbatim>\<open>0\<close>\<close>
  "rjust2 s = replicate (2 - length s) (CHR ''0'') @ s"

fun rfind :: "char \<Rightarrow> string \<Rightarrow> int" where
  "rfind c [] = - 1"
| "rfind c (x # xs) =
     (let r = rfind c xs in if 0 \<le> r then r + 1 else if x = c then 0 else - 1)"

definition splitext :: "string \<Rightarrow> string \<times> string" where
  \<comment> \<open>\<^verbatim>\<open>os.path.splitext\<close> of \<^verbatim>\<open>posixpath\<close>: the extension starts at the last dot of the
      last component, unless only dots come before it there\<close>
  "splitext p =
     (let sepIndex = rfind (CHR ''/'') p; dotIndex = rfind (CHR ''.'') p
      in if sepIndex < dotIndex \<and>
            list_ex (\<lambda>c. c \<noteq> CHR ''.'')
              (take (nat (dotIndex - (sepIndex + 1))) (drop (nat (sepIndex + 1)) p))
         then (take (nat dotIndex) p, drop (nat dotIndex) p)
         else (p, []))"

fun rstrip :: "char \<Rightarrow> string \<Rightarrow> string" where
  "rstrip c [] = []"
| "rstrip c (x # xs) = (let r = rstrip c xs in if r = [] \<and> x = c then [] else x # r)"

definition dirname :: "string \<Rightarrow> string" where
  "dirname p =
     (let head = take (nat (rfind (CHR ''/'') p + 1)) p
      in if head \<noteq> [] \<and> head \<noteq> replicate (length head) (CHR ''/'')
         then rstrip (CHR ''/'') head else head)"

definition path_join :: "string \<Rightarrow> string \<Rightarrow> string" where
  \<comment> \<open>\<^verbatim>\<open>os.path.join\<close> of two components\<close>
  "path_join a b =
     (if b \<noteq> [] \<and> hd b = CHR ''/'' then b
      else if a = [] \<or> last a = CHR ''/'' then a @ b
      else a @ ''/'' @ b)"

fun split_sep :: "char \<Rightarrow> string \<Rightarrow> string list" where
  "split_sep c [] = [[]]"
| "split_sep c (x # xs) =
     (if x = c then [] # split_sep c xs
      else (case split_sep c xs of [] \<Rightarrow> [[x]] | y # ys \<Rightarrow> (x # y) # ys))"

fun join_sep :: "string \<Rightarrow> string list \<Rightarrow> string" where
  "join_sep s [] = []"
| "join_sep s [x] = x"
| "join_sep s (x # y # ys) = x @ s @ join_sep s (y # ys)"

definition norm_comp :: "nat \<Rightarrow> string list \<Rightarrow> string \<Rightarrow> string list" where
  \<comment> \<open>the body of the loop over the components in \<^verbatim>\<open>normpath\<close>\<close>
  "norm_comp initial_slashes new_comps part =
     (if part = [] \<or> part = ''.'' then new_comps
      else if part \<noteq> ''..'' \<or> (initial_slashes = 0 \<and> new_comps = []) \<or>
              (new_comps \<noteq> [] \<and> last new_comps = ''..'')
           then new_comps @ [part]
      else if new_comps \<noteq> [] then butlast new_comps
      else new_comps)"

definition normpath :: "string \<Rightarrow> string" where
  "normpath path =
     (if path = [] then ''.''
      else let initial_slashes =
                 (if take 1 path = ''/''
                  then (if take 2 path = ''//'' \<and> take 3 path \<noteq> ''///'' then 2 else 1)
                  else 0);
               comps = foldl (norm_comp initial_slashes) [] (split_sep (CHR ''/'') path);
               p = replicate initial_slashes (CHR ''/'') @ join_sep ''/'' comps
           in if p = [] then ''.'' else p)"

definition quote_file :: "string \<Rightarrow> string" where
  \<comment> \<open>\<^verbatim>\<open>file.replace("'", "\\'")\<close>\<close>
  "quote_file f = concat (map (\<lambda>c. if c = CHR 0x27 then [CHR 0x5C, CHR 0x27] else [c]) f)"

subsection \<open>Qt's \<^verbatim>\<open>QTime\<close>\<close>

text \<open>
  A \<^verbatim>\<open>QTime\<close> is a number of milliseconds since midnight, \<open>- 1\<close> for the null time that
  the constructor yields on a component out of range.
\<close>

datatype qtime = Mds (mds: int)

definition isValid :: "qtime \<Rightarrow> bool" where
  "isValid t = (0 \<le> mds t \<and> mds t < 86400000)"

definition QTime :: "int \<Rightarrow> int \<Rightarrow> int \<Rightarrow> int \<Rightarrow> qtime" where
  "QTime h m s ms =
     (if 0 \<le> h \<and> h < 24 \<and> 0 \<le> m \<and> m < 60 \<and> 0 \<le> s \<and> s < 60 \<and> 0 \<le> ms \<and> ms < 1000
      then Mds ((h * 3600 + m * 60 + s) * 1000 + ms) else Mds (- 1))"

definition hour :: "qtime \<Rightarrow> int" where
  "hour t = (if isValid t then mds t div 3600000 else - 1)"

definition minute :: "qtime \<Rightarrow> int" where
  "minute t = (if isValid t then (mds t mod 3600000) div 60000 else - 1)"

definition second :: "qtime \<Rightarrow> int" where
  "second t = (if isValid t then (mds t div 1000) mod 60 else - 1)"

definition msec :: "qtime \<Rightarrow> int" where
  "msec t = (if isValid t then mds t mod 1000 else - 1)"

definition msecsTo :: "qtime \<Rightarrow> qtime \<Rightarrow> int" where
  "msecsTo t u = (if isValid t \<and> isValid u then mds u - mds t else 0)"

definition qtime_lt :: "qtime \<Rightarrow> qtime \<Rightarrow> bool" where
  \<comment> \<open>\<^verbatim>\<open>QTime.__lt__\<close>\<close>
  "qtime_lt t u = (mds t < mds u)"

definition toString :: "qtime \<Rightarrow> string" where
  \<comment> \<open>\<^verbatim>\<open>toString(self.timeformat)\<close>; \<^verbatim>\<open>timeformat\<close> is \<^verbatim>\<open>'hh:mm:ss'\<close> and is never assigned
      again, so the milliseconds are not printed\<close>
  "toString t =
     (if isValid t
      then rjust2 (decimal (nat (hour t))) @ '':'' @ rjust2 (decimal (nat (minute t))) @ '':'' @
           rjust2 (decimal (nat (second t)))
      else [])"

subsection \<open>\<^verbatim>\<open>deltaToQTime\<close>\<close>

definition deltaToQTime :: "int \<Rightarrow> qtime" where
  "deltaToQTime millisecs =
     (let secs = py_truediv (of_int millisecs) 1000
      in QTime (py_int (py_mod (py_truediv secs 3600) 60))
               (py_int (py_mod (py_truediv secs 60) 60))
               (py_int (py_mod secs 60))
               (py_int (py_mod (py_mul secs 1000) 1000)))"

definition recombine :: "qtime \<Rightarrow> int" where
  \<comment> \<open>the milliseconds that the four components of a time stand for\<close>
  "recombine t = ((hour t * 60 + minute t) * 60 + second t) * 1000 + msec t"

subsection \<open>The state of a \<^verbatim>\<open>VidCutter\<close>\<close>

text \<open>
  An entry of \<^verbatim>\<open>clipTimes\<close> is the three-element list \<^verbatim>\<open>[start, end, thumbnail]\<close>: the
  end is the empty string until \<^verbatim>\<open>cutEnd\<close> stores a \<^verbatim>\<open>QTime\<close> there (\<open>None\<close> here), the
  thumbnail is a \<^verbatim>\<open>QPixmap\<close> or \<^verbatim>\<open>None\<close>.
\<close>

datatype pixmap = QPixmap nat

record clip =
  clip_start :: qtime
  clip_end :: "qtime option"
  clip_thumb :: "pixmap option"

text \<open>
  Of the widgets the state keeps what the methods below read back: the number of rows of
  the list widget \<^verbatim>\<open>cliplist\<close> and the enabled flag of each action. The slider, the
  cursor and the layout are left out.
\<close>

record vidcutter =
  clipTimes :: "clip list"
  inCut :: bool
  finalFilename :: string
  cliplist_count :: int
  saveAction :: bool
  cutStartAction :: bool
  cutEndAction :: bool
  moveItemUpAction :: bool
  moveItemDownAction :: bool
  removeItemAction :: bool
  removeAllAction :: bool

definition init :: vidcutter where
  \<comment> \<open>\<^verbatim>\<open>__init__\<close> with \<^verbatim>\<open>initActions\<close>: every action here is created disabled\<close>
  "init = \<lparr>clipTimes = [], inCut = False, finalFilename = [], cliplist_count = 0,
            saveAction = False, cutStartAction = False, cutEndAction = False,
            moveItemUpAction = False, moveItemDownAction = False,
            removeItemAction = False, removeAllAction = False\<rparr>"

definition renderTimes :: "vidcutter \<Rightarrow> vidcutter" where
  \<comment> \<open>the list widget is cleared and gets one row for each clip; then the two tests on
      \<^verbatim>\<open>saveAction\<close>\<close>
  "renderTimes s =
     (let s1 = s\<lparr>cliplist_count := int (length (clipTimes s))\<rparr>;
          s2 = (if clipTimes s1 \<noteq> [] \<and> \<not> inCut s1 then s1\<lparr>saveAction := True\<rparr> else s1)
      in if clipTimes s2 = [] \<or> clip_end (hd (clipTimes s2)) = None
         then s2\<lparr>saveAction := False\<rparr> else s2)"

definition initMediaControls :: "bool \<Rightarrow> vidcutter \<Rightarrow> vidcutter" where
  "initMediaControls flag s =
     s\<lparr>saveAction := False, cutStartAction := flag, cutEndAction := False\<rparr>"

definition loadFile :: "vidcutter \<Rightarrow> vidcutter" where
  \<comment> \<open>for a file that exists\<close>
  "loadFile s = (initMediaControls True s)\<lparr>cliplist_count := 0, clipTimes := []\<rparr>"

definition cutStart :: "int \<Rightarrow> pixmap option \<Rightarrow> vidcutter \<Rightarrow> vidcutter" where
  \<comment> \<open>\<open>position\<close> is \<^verbatim>\<open>self.mediaPlayer.position()\<close>, \<open>thumb\<close> what \<^verbatim>\<open>captureImage\<close> returns\<close>
  "cutStart position thumb s =
     renderTimes
       (s\<lparr>clipTimes := clipTimes s @
             [\<lparr>clip_start = deltaToQTime position, clip_end = None, clip_thumb = thumb\<rparr>],
          cutStartAction := False, cutEndAction := True, inCut := True\<rparr>)"

definition cutEnd :: "int \<Rightarrow> vidcutter \<Rightarrow> error + vidcutter" where
  "cutEnd position s =
     (case py_getitem (clipTimes s) (int (length (clipTimes s)) - 1) of
        Inl e \<Rightarrow> Inl e
      | Inr item \<Rightarrow>
          let selected = deltaToQTime position
          in if qtime_lt selected (clip_start item) then Inl InvalidEndTime
             else Inr (renderTimes
                    (s\<lparr>clipTimes :=
                         (clipTimes s)[length (clipTimes s) - 1 := item\<lparr>clip_end := Some selected\<rparr>],
                       cutStartAction := True, cutEndAction := False, inCut := False\<rparr>)))"

definition moveItemUp :: "int \<Rightarrow> vidcutter \<Rightarrow> error + vidcutter" where
  \<comment> \<open>\<open>index\<close> is \<^verbatim>\<open>self.cliplist.currentRow()\<close>\<close>
  "moveItemUp index s =
     (case py_getitem (clipTimes s) index of
        Inl e \<Rightarrow> Inl e
      | Inr tmpItem \<Rightarrow>
          (case py_delitem (clipTimes s) index of
             Inl e \<Rightarrow> Inl e
           | Inr xs \<Rightarrow> Inr (renderTimes (s\<lparr>clipTimes := py_insert xs (index - 1) tmpItem\<rparr>))))"

definition moveItemDown :: "int \<Rightarrow> vidcutter \<Rightarrow> error + vidcutter" where
  "moveItemDown index s =
     (case py_getitem (clipTimes s) index of
        Inl e \<Rightarrow> Inl e
      | Inr tmpItem \<Rightarrow>
          (case py_delitem (clipTimes s) index of
             Inl e \<Rightarrow> Inl e
           | Inr xs \<Rightarrow> Inr (renderTimes (s\<lparr>clipTimes := py_insert xs (index + 1) tmpItem\<rparr>))))"

definition removeItem :: "int \<Rightarrow> vidcutter \<Rightarrow> error + vidcutter" where
  "removeItem index s =
     (case py_delitem (clipTimes s) index of
        Inl e \<Rightarrow> Inl e
      | Inr xs \<Rightarrow>
          let s1 = s\<lparr>clipTimes := xs\<rparr>;
              s2 = (if inCut s1 \<and> index = cliplist_count s1 - 1
                    then initMediaControls True (s1\<lparr>inCut := False\<rparr>) else s1)
          in Inr (renderTimes s2))"

definition clearList :: "vidcutter \<Rightarrow> vidcutter" where
  "clearList s =
     initMediaControls True
       (renderTimes (s\<lparr>clipTimes := [], cliplist_count := 0, inCut := False\<rparr>))"

definition syncClipList :: "int \<Rightarrow> int \<Rightarrow> vidcutter \<Rightarrow> error + vidcutter" where
  \<comment> \<open>the slot of \<^verbatim>\<open>rowsMoved\<close>; of its five arguments only \<open>start\<close> and \<open>row\<close> are used\<close>
  "syncClipList start row s =
     (let index = (if start < row then row - 1 else row)
      in case py_pop (clipTimes s) start of
           Inl e \<Rightarrow> Inl e
         | Inr (clip, xs) \<Rightarrow> Inr (s\<lparr>clipTimes := py_insert xs index clip\<rparr>))"

definition itemMenu :: "int \<Rightarrow> vidcutter \<Rightarrow> vidcutter" where
  \<comment> \<open>the state in which the context menu of the clip list opens, for the row \<open>index\<close>\<close>
  "itemMenu index s =
     (let s0 = s\<lparr>moveItemUpAction := False, moveItemDownAction := False,
                 removeItemAction := False, removeAllAction := False\<rparr>;
          s1 = (if index \<noteq> - 1
                then let a = (if \<not> inCut s0
                              then let u = (if 0 < index then s0\<lparr>moveItemUpAction := True\<rparr> else s0)
                                   in if index < cliplist_count u - 1
                                      then u\<lparr>moveItemDownAction := True\<rparr> else u
                              else s0)
                     in if 0 < cliplist_count a then a\<lparr>removeItemAction := True\<rparr> else a
                else s0)
      in if 0 < cliplist_count s1 then s1\<lparr>removeAllAction := True\<rparr> else s1)"

text \<open>
  A \<^verbatim>\<open>QAction\<close> that is disabled does not fire: choosing an entry of the context menu runs
  its slot only when \<^verbatim>\<open>itemMenu\<close> has enabled it.
\<close>

definition chooseMoveUp :: "int \<Rightarrow> vidcutter \<Rightarrow> error + vidcutter" where
  "chooseMoveUp index s =
     (let m = itemMenu index s in if moveItemUpAction m then moveItemUp index m else Inr m)"

definition chooseMoveDown :: "int \<Rightarrow> vidcutter \<Rightarrow> error + vidcutter" where
  "chooseMoveDown index s =
     (let m = itemMenu index s in if moveItemDownAction m then moveItemDown index m else Inr m)"

datatype button = BackButton | ForwardButton | OtherButton

definition mousePressEvent :: "button \<Rightarrow> int \<Rightarrow> pixmap option \<Rightarrow> vidcutter \<Rightarrow> error + vidcutter" where
  "mousePressEvent b position thumb s =
     (if b = BackButton \<and> cutStartAction s then Inr (cutStart position thumb s)
      else if b = ForwardButton \<and> cutEndAction s then cutEnd position s
      else Inr s)"

fun presses :: "(button \<times> int \<times> pixmap option) list \<Rightarrow> vidcutter \<Rightarrow> vidcutter" where
  \<comment> \<open>a sequence of button presses; a press that ends in an error leaves the state as it
      was, since \<^verbatim>\<open>cutEnd\<close> assigns nothing before it returns or raises\<close>
  "presses [] s = s"
| "presses ((b, position, thumb) # es) s =
     presses es (case mousePressEvent b position thumb s of Inl e \<Rightarrow> s | Inr s' \<Rightarrow> s')"

subsection \<open>The export: \<^verbatim>\<open>cutVideo\<close> and \<^verbatim>\<open>joinVideos\<close>\<close>

text \<open>
  The world outside the program is the set of files that exist, together with the
  journal of what the export did to it, in the order in which it did it.
\<close>

datatype io =
    Cut string string string string
  | Join string string
  | WriteList string string
  | OsRemove string
  | QFileRemove string
  | QFileRename string string

record world =
  files :: "string set"
  journal :: "io list"

text \<open>
  The class \<^verbatim>\<open>VideoService\<close> of \<^verbatim>\<open>videoservice.py\<close> is not among the sources. The export
  is stated for every backend: a backend says which of its calls succeed. What a call
  returns is dropped by its caller, since \<^verbatim>\<open>cutVideo\<close> and \<^verbatim>\<open>joinVideos\<close> use both calls as
  statements.
\<close>

record backend =
  cut_ok :: "string \<Rightarrow> string \<Rightarrow> string \<Rightarrow> string \<Rightarrow> bool"
  join_ok :: "string \<Rightarrow> string \<Rightarrow> bool"

definition videoService_cut ::
  "backend \<Rightarrow> string \<Rightarrow> string \<Rightarrow> string \<Rightarrow> string \<Rightarrow> world \<Rightarrow> world" where
  \<comment> \<open>Modelled from the spec: \<^verbatim>\<open>VideoService.cut\<close> is the trim of the specification
      (source, start and duration in, one output file out, or a failure). A trim that
      succeeds leaves its output file behind, one that fails leaves nothing.\<close>
  "videoService_cut be source output frametime duration w =
     w\<lparr>files := (if cut_ok be source output frametime duration
                  then insert output (files w) else files w),
       journal := journal w @ [Cut source output frametime duration]\<rparr>"

definition videoService_join :: "backend \<Rightarrow> string \<Rightarrow> string \<Rightarrow> world \<Rightarrow> world" where
  \<comment> \<open>Modelled from the spec: \<^verbatim>\<open>VideoService.join\<close> is the concatenate of the
      specification (the files named in the list file in, one output file out, or a
      failure).\<close>
  "videoService_join be listfile output w =
     w\<lparr>files := (if join_ok be listfile output then insert output (files w) else files w),
       journal := journal w @ [Join listfile output]\<rparr>"

definition write_list :: "string \<Rightarrow> string \<Rightarrow> world \<Rightarrow> world" where
  \<comment> \<open>\<^verbatim>\<open>open(listfile, 'w')\<close>, the writes and \<^verbatim>\<open>close\<close>\<close>
  "write_list f text w =
     w\<lparr>files := insert f (files w), journal := journal w @ [WriteList f text]\<rparr>"

definition os_remove :: "string \<Rightarrow> world \<Rightarrow> bool \<times> world" where
  \<comment> \<open>\<open>False\<close> when \<^verbatim>\<open>os.remove\<close> raises, which it does for a file that is not there\<close>
  "os_remove f w =
     (if f \<in> files w
      then (True, w\<lparr>files := files w - {f}, journal := journal w @ [OsRemove f]\<rparr>)
      else (False, w))"

definition QFile_remove :: "string \<Rightarrow> world \<Rightarrow> world" where
  "QFile_remove f w = w\<lparr>files := files w - {f}, journal := journal w @ [QFileRemove f]\<rparr>"

definition QFile_rename :: "string \<Rightarrow> string \<Rightarrow> world \<Rightarrow> world" where
  \<comment> \<open>\<^verbatim>\<open>QFile.rename\<close> moves nothing when the old name is missing or the new one taken\<close>
  "QFile_rename old new w =
     w\<lparr>files := (if old \<in> files w \<and> new \<notin> files w
                  then insert new (files w - {old}) else files w),
       journal := journal w @ [QFileRename old new]\<rparr>"

fun remove_files :: "string list \<Rightarrow> world \<Rightarrow> bool \<times> world" where
  \<comment> \<open>the loop inside the \<^verbatim>\<open>try\<close> of \<^verbatim>\<open>joinVideos\<close>; it stops where \<^verbatim>\<open>os.remove\<close> raises\<close>
  "remove_files [] w = (True, w)"
| "remove_files (f # fs) w =
     (if f \<in> files w
      then (case os_remove f w of
              (True, w') \<Rightarrow> remove_files fs w'
            | (False, w') \<Rightarrow> (False, w'))
      else remove_files fs w)"

definition list_text :: "string list \<Rightarrow> string" where
  \<comment> \<open>what \<^verbatim>\<open>joinVideos\<close> writes into the list file, a line for each file\<close>
  "list_text joinlist =
     concat (map (\<lambda>f. ''file '' @ [CHR 0x27] @ quote_file f @ [CHR 0x27, CHR 0x0A]) joinlist)"

definition joinVideos :: "backend \<Rightarrow> string list \<Rightarrow> string \<Rightarrow> world \<Rightarrow> error option \<times> world" where
  \<comment> \<open>the \<^verbatim>\<open>except: pass\<close> swallows whatever the removals raise\<close>
  "joinVideos be joinlist filename w =
     (case joinlist of
        [] \<Rightarrow> (Some IndexError, w)
      | first # _ \<Rightarrow>
          let listfile = normpath (path_join (dirname first) ''.vidcutter.list'');
              w1 = write_list listfile (list_text joinlist) w;
              w2 = videoService_join be listfile filename w1
          in (case os_remove listfile w2 of
                (True, w3) \<Rightarrow> (None, snd (remove_files joinlist w3))
              | (False, w3) \<Rightarrow> (None, w3)))"

definition clip_name :: "string \<Rightarrow> string \<Rightarrow> nat \<Rightarrow> string" where
  \<comment> \<open>\<^verbatim>\<open>'%s_%s%s' % (file, '{0:0>2}'.format(index), ext)\<close>\<close>
  "clip_name file ext index = file @ ''_'' @ rjust2 (decimal index) @ ext"

fun cut_clips ::
  "backend \<Rightarrow> string \<Rightarrow> string \<Rightarrow> string \<Rightarrow> nat \<Rightarrow> clip list \<Rightarrow>
   string \<times> string list \<times> world \<Rightarrow> error option \<times> string \<times> string list \<times> world" where
  \<comment> \<open>the \<^verbatim>\<open>for\<close> loop of \<^verbatim>\<open>cutVideo\<close> over the clips that are left, on \<^verbatim>\<open>filename\<close>,
      \<^verbatim>\<open>filelist\<close> and the world; \<^verbatim>\<open>msecsTo\<close> raises \<^verbatim>\<open>TypeError\<close> on an end that is still
      the empty string\<close>
  "cut_clips be source file ext index [] acc = (None, acc)"
| "cut_clips be source file ext index (c # cs) (filename, filelist, w) =
     (case clip_end c of
        None \<Rightarrow> (Some TypeError, filename, filelist, w)
      | Some e \<Rightarrow>
          let runtime = toString (deltaToQTime (msecsTo (clip_start c) e));
              filename' = clip_name file ext index
          in cut_clips be source file ext (index + 1) cs
               (filename', filelist @ [filename'],
                videoService_cut be source filename' (toString (clip_start c)) runtime w))"

definition cutVideo ::
  "backend \<Rightarrow> string \<Rightarrow> string \<Rightarrow> vidcutter \<Rightarrow> world \<Rightarrow> (error + bool) \<times> vidcutter \<times> world" where
  \<comment> \<open>\<open>source\<close> is the file of the media player, \<open>chosen\<close> what the save dialog returns
      (empty when it is cancelled)\<close>
  "cutVideo be source chosen s w =
     (if clipTimes s \<noteq> [] then
        let s1 = s\<lparr>finalFilename := chosen\<rparr>
        in if finalFilename s1 \<noteq> [] then
             let (file, ext) = splitext (finalFilename s1)
             in (case cut_clips be source file ext 1 (clipTimes s1) ([], [], w) of
                   (Some e, filename, filelist, w1) \<Rightarrow> (Inl e, s1, w1)
                 | (None, filename, filelist, w1) \<Rightarrow>
                     if 1 < length filelist
                     then (case joinVideos be filelist (finalFilename s1) w1 of
                             (Some e, w2) \<Rightarrow> (Inl e, s1, w2)
                           | (None, w2) \<Rightarrow> (Inr True, s1, w2))
                     else (Inr True, s1,
                           QFile_rename filename (finalFilename s1)
                             (QFile_remove (finalFilename s1) w1)))
           else (Inr True, s1, w)
      else (Inr False, s, w))"

definition backend_calls :: "io list \<Rightarrow> io list" where
  \<comment> \<open>the calls of a journal that went to the backend\<close>
  "backend_calls js = filter (\<lambda>j. case j of Cut _ _ _ _ \<Rightarrow> True | Join _ _ \<Rightarrow> True | _ \<Rightarrow> False) js"

definition closed_clip :: "int \<Rightarrow> int \<Rightarrow> clip" where
  \<comment> \<open>the clip that \<^verbatim>\<open>cutStart\<close> at \<open>a\<close> and \<^verbatim>\<open>cutEnd\<close> at \<open>b\<close> leave in the list, without
      a thumbnail\<close>
  "closed_clip a b =
     \<lparr>clip_start = deltaToQTime a, clip_end = Some (deltaToQTime b), clip_thumb = None\<rparr>"

definition open_clips :: "clip list \<Rightarrow> nat list" where
  \<comment> \<open>the positions of the clips that have no end\<close>
  "open_clips xs = filter (\<lambda>i. clip_end (xs ! i) = None) [0 ..< length xs]"

definition pinned :: "clip list \<Rightarrow> bool" where
  \<comment> \<open>at most one clip is open, and an open clip is the last one\<close>
  "pinned xs = (open_clips xs = [] \<or> open_clips xs = [length xs - 1])"

definition reorder_spec :: "nat \<Rightarrow> nat \<Rightarrow> 'a list \<Rightarrow> 'a list" where
  \<comment> \<open>the reorder as the specification words it: the element at \<open>fromIndex\<close> is taken
      out and put in at the effective index\<close>
  "reorder_spec fromIndex toIndex xs =
     (let effective = (if toIndex \<le> fromIndex then toIndex else toIndex - 1);
          rest = take fromIndex xs @ drop (Suc fromIndex) xs
      in take effective rest @ [xs ! fromIndex] @ drop effective rest)"

definition cut_call :: "string \<Rightarrow> string \<Rightarrow> clip \<Rightarrow> io" where
  \<comment> \<open>the trim of one clip into the file \<open>name\<close>: from its start, for the time from
      its start to its end\<close>
  "cut_call source name c =
     Cut source name (toString (clip_start c))
       (toString (deltaToQTime (msecsTo (clip_start c) (the (clip_end c)))))"

definition clip_names :: "string \<Rightarrow> string \<Rightarrow> nat \<Rightarrow> nat \<Rightarrow> string list" where
  \<comment> \<open>the names of \<open>n\<close> intermediate files, numbered from \<open>i\<close>\<close>
  "clip_names file ext i n = map (clip_name file ext) [i ..< i + n]"

definition list_file :: "string \<Rightarrow> string" where
  \<comment> \<open>the list file that \<^verbatim>\<open>joinVideos\<close> puts beside the first intermediate file\<close>
  "list_file first = normpath (path_join (dirname first) ''.vidcutter.list'')"

definition failing_at :: "string \<Rightarrow> backend" where
  \<comment> \<open>the backend whose only failure is the trim into the file \<open>f\<close>\<close>
  "failing_at f =
     \<lparr>cut_ok = (\<lambda>source output frametime duration. output \<noteq> f),
      join_ok = (\<lambda>listfile output. True)\<rparr>"

definition three_clips :: "clip list" where
  "three_clips =
     [\<lparr>clip_start = Mds 0, clip_end = Some (Mds 1000), clip_thumb = None\<rparr>,
      \<lparr>clip_start = Mds 2000, clip_end = Some (Mds 2500), clip_thumb = None\<rparr>,
      \<lparr>clip_start = Mds 3000, clip_end = Some (Mds 5000), clip_thumb = None\<rparr>]"

definition cut_calls :: "string \<Rightarrow> string \<Rightarrow> string \<Rightarrow> nat \<Rightarrow> clip list \<Rightarrow> io list" where
  \<comment> \<open>one trim for each clip, in the order of the list, into the files numbered from \<open>i\<close>\<close>
  "cut_calls source file ext i cs =
     map (\<lambda>(name, c). cut_call source name c) (zip (clip_names file ext i (length cs)) cs)"

definition reliable :: backend where
  \<comment> \<open>the backend that never fails\<close>
  "reliable =
     \<lparr>cut_ok = (\<lambda>source output frametime duration. True),
      join_ok = (\<lambda>listfile output. True)\<rparr>"

definition consistent :: "vidcutter \<Rightarrow> bool" where
  \<comment> \<open>what the two buttons keep: only the last clip may lack its end, \<^verbatim>\<open>inCut\<close> says
      whether it does, and it is \<^verbatim>\<open>inCut\<close> that enables `Set End' and disables `Set Start'\<close>
  "consistent s =
     ((\<forall>c \<in> set (butlast (clipTimes s)). clip_end c \<noteq> None) \<and>
      inCut s = (clipTimes s \<noteq> [] \<and> clip_end (last (clipTimes s)) = None) \<and>
      cutStartAction s = (\<not> inCut s) \<and> cutEndAction s = inCut s)"

definition digit_value :: "char \<Rightarrow> nat" where
  \<comment> \<open>the digit that a character of \<open>0 .. 9\<close> stands for\<close>
  "digit_value c = length (takeWhile (\<lambda>d. d \<noteq> c) ''0123456789'')"

definition decimal_value :: "string \<Rightarrow> nat" where
  \<comment> \<open>the number that a string of digits stands for\<close>
  "decimal_value s = foldl (\<lambda>a c. 10 * a + digit_value c) 0 s"

definition cut_outputs ::
  "backend \<Rightarrow> string \<Rightarrow> string \<Rightarrow> string \<Rightarrow> nat \<Rightarrow> clip list \<Rightarrow> string list" where
  \<comment> \<open>the intermediate files, numbered from \<open>i\<close>, whose trim the backend lets succeed\<close>
  "cut_outputs be source file ext i cs =
     map fst (filter (\<lambda>(name, c). cut_ok be source name (toString (clip_start c))
                        (toString (deltaToQTime (msecsTo (clip_start c) (the (clip_end c))))))
                (zip (clip_names file ext i (length cs)) cs))"

section \<open>Properties\<close>

subsection \<open>List operations\<close>

lemma py_index_Some: "py_index xs i = Some j \<Longrightarrow> j < length xs"
  by (auto simp: py_index_def Let_def split: if_splits)

lemma py_index_in_range:
  "0 \<le> i \<Longrightarrow> i < int (length xs) \<Longrightarrow> py_index xs i = Some (nat i)"
  by (simp add: py_index_def Let_def)

lemma py_insert_in_range:
  "0 \<le> i \<Longrightarrow> i \<le> int (length xs) \<Longrightarrow>
   py_insert xs i x = take (nat i) xs @ [x] @ drop (nat i) xs"
  by (simp add: py_insert_def Let_def min_def)

lemma py_delitem_last: "xs \<noteq> [] \<Longrightarrow> py_delitem xs (- 1) = Inr (butlast xs)"
  by (cases xs rule: rev_cases) (simp_all add: py_delitem_def py_index_def Let_def)

lemma mset_py_insert: "mset (py_insert xs i x) = add_mset x (mset xs)"
proof -
  have "mset (take n xs) + mset (drop n xs) = mset xs" for n
    by (simp flip: mset_append)
  then show ?thesis
    by (simp add: py_insert_def Let_def)
qed

lemma mset_py_pop:
  assumes "py_pop xs i = Inr (x, ys)"
  shows "add_mset x (mset ys) = mset xs"
proof -
  from assms obtain j where j: "py_index xs i = Some j" "x = xs ! j"
      "ys = take j xs @ drop (Suc j) xs"
    by (auto simp: py_pop_def split: option.splits)
  then have "j < length xs" by (simp add: py_index_Some)
  then have "xs = take j xs @ xs ! j # drop (Suc j) xs"
    by (rule id_take_nth_drop)
  then have "mset xs = mset (take j xs @ xs ! j # drop (Suc j) xs)" by simp
  with j show ?thesis by simp
qed

subsection \<open>Times at given positions\<close>

lemma deltaToQTime_1000: "deltaToQTime 1000 = Mds 1000"
  by code_simp

lemma deltaToQTime_1001: "deltaToQTime 1001 = Mds 1000"
  by code_simp

lemma deltaToQTime_60h: "deltaToQTime 216000000 = Mds 0"
  by code_simp

subsection \<open>What the widgets' bookkeeping leaves alone\<close>

lemma renderTimes_fields:
  "clipTimes (renderTimes s) = clipTimes s" "inCut (renderTimes s) = inCut s"
  "cutStartAction (renderTimes s) = cutStartAction s"
  "cutEndAction (renderTimes s) = cutEndAction s"
  "cliplist_count (renderTimes s) = int (length (clipTimes s))"
  by (simp_all add: renderTimes_def Let_def)

lemma itemMenu_fields:
  "clipTimes (itemMenu index s) = clipTimes s" "inCut (itemMenu index s) = inCut s"
  "cliplist_count (itemMenu index s) = cliplist_count s"
  by (simp_all add: itemMenu_def Let_def)

lemma itemMenu_up:
  "moveItemUpAction (itemMenu index s) = (index \<noteq> - 1 \<and> \<not> inCut s \<and> 0 < index)"
  by (simp add: itemMenu_def Let_def)

lemma itemMenu_down:
  "moveItemDownAction (itemMenu index s) =
     (index \<noteq> - 1 \<and> \<not> inCut s \<and> index < cliplist_count s - 1)"
  by (simp add: itemMenu_def Let_def)

subsection \<open>Drag and drop\<close>

text \<open>
  C8. For a clip list and rows that the list widget can report (\<open>start\<close> a row of the
  list, \<open>row\<close> a row or the position behind the last), \<^verbatim>\<open>syncClipList\<close> is the reorder of
  the specification: the clip at \<open>start\<close> is taken out and put in at \<open>row\<close> when
  \<open>row \<le> start\<close>, at \<open>row - 1\<close> otherwise, and nothing else of the state changes.
  Whatever the two numbers are, a call that returns leaves a permutation of the clips;
  the call raises \<^verbatim>\<open>IndexError\<close>, changing nothing, exactly when \<open>start\<close> is no
  subscript of the list.
\<close>

theorem syncClipList_reorder:
  "(0 \<le> start \<and> start < int (length (clipTimes s)) \<and>
    0 \<le> row \<and> row \<le> int (length (clipTimes s)) \<longrightarrow>
      syncClipList start row s =
        Inr (s\<lparr>clipTimes := reorder_spec (nat start) (nat row) (clipTimes s)\<rparr>)) \<and>
   (\<forall>s'. syncClipList start row s = Inr s' \<longrightarrow> mset (clipTimes s') = mset (clipTimes s)) \<and>
   ((syncClipList start row s = Inl IndexError) =
      (start < - int (length (clipTimes s)) \<or> int (length (clipTimes s)) \<le> start))"
proof (intro conjI impI allI)
  assume r: "0 \<le> start \<and> start < int (length (clipTimes s)) \<and>
    0 \<le> row \<and> row \<le> int (length (clipTimes s))"
  let ?xs = "clipTimes s"
  let ?rest = "take (nat start) ?xs @ drop (Suc (nat start)) ?xs"
  have len: "int (length ?rest) = int (length ?xs) - 1"
    using r by auto
  have pop: "py_pop ?xs start = Inr (?xs ! nat start, ?rest)"
    using r by (simp add: py_pop_def py_index_in_range)
  show "syncClipList start row s =
      Inr (s\<lparr>clipTimes := reorder_spec (nat start) (nat row) ?xs\<rparr>)"
  proof (cases "start < row")
    case True
    then have "py_insert ?rest (row - 1) (?xs ! nat start) =
        take (nat (row - 1)) ?rest @ [?xs ! nat start] @ drop (nat (row - 1)) ?rest"
      using r len by (intro py_insert_in_range) auto
    moreover have "nat (row - 1) = nat row - 1" by linarith
    moreover have "\<not> nat row \<le> nat start" using True r by linarith
    ultimately show ?thesis
      using True pop by (simp add: syncClipList_def reorder_spec_def Let_def)
  next
    case False
    then have "py_insert ?rest row (?xs ! nat start) =
        take (nat row) ?rest @ [?xs ! nat start] @ drop (nat row) ?rest"
      using r len by (intro py_insert_in_range) auto
    moreover have "nat row \<le> nat start" using False r by linarith
    ultimately show ?thesis
      using False pop by (simp add: syncClipList_def reorder_spec_def Let_def)
  qed
next
  fix s' assume "syncClipList start row s = Inr s'"
  then show "mset (clipTimes s') = mset (clipTimes s)"
    by (auto simp: syncClipList_def Let_def mset_py_insert split: sum.splits dest: mset_py_pop)
next
  show "(syncClipList start row s = Inl IndexError) =
      (start < - int (length (clipTimes s)) \<or> int (length (clipTimes s)) \<le> start)"
    by (auto simp: syncClipList_def Let_def py_pop_def py_index_def
        split: sum.splits option.splits if_splits)
qed

text \<open>The first of three clips dragged behind the last, and the last dragged to the front.\<close>

theorem syncClipList_reorder_witness:
  "(0::int) \<le> 0 \<and> (0::int) < int (length (clipTimes (init\<lparr>clipTimes := three_clips\<rparr>))) \<and>
   (3::int) \<le> int (length (clipTimes (init\<lparr>clipTimes := three_clips\<rparr>))) \<and>
   syncClipList 0 3 (init\<lparr>clipTimes := three_clips\<rparr>) =
     Inr (init\<lparr>clipTimes := [three_clips ! 1, three_clips ! 2, three_clips ! 0]\<rparr>) \<and>
   mset [three_clips ! 1, three_clips ! 2, three_clips ! 0] = mset three_clips \<and>
   syncClipList 0 3 (init\<lparr>clipTimes := three_clips\<rparr>) \<noteq> Inl IndexError"
  using syncClipList_reorder [of 0 "init\<lparr>clipTimes := three_clips\<rparr>" 3]
  by (simp add: three_clips_def reorder_spec_def)

subsection \<open>Removing a clip with no row selected\<close>

lemma removeItem_unselected:
  assumes "clipTimes s \<noteq> []" and "0 < cliplist_count s"
  shows "removeItem (- 1) s = Inr (renderTimes (s\<lparr>clipTimes := butlast (clipTimes s)\<rparr>)) \<and>
         clipTimes (renderTimes (s\<lparr>clipTimes := butlast (clipTimes s)\<rparr>)) = butlast (clipTimes s) \<and>
         inCut (renderTimes (s\<lparr>clipTimes := butlast (clipTimes s)\<rparr>)) = inCut s"
  using assms by (simp add: removeItem_def py_delitem_last renderTimes_fields Let_def)


subsection \<open>Move Up and Move Down\<close>

text \<open>
  C7, as the claim states it, fails: \<^verbatim>\<open>moveItemUp\<close> tests neither the row nor \<^verbatim>\<open>inCut\<close>.
  After \<^verbatim>\<open>cutStart\<close> at 500 ms on a freshly loaded file, \<^verbatim>\<open>moveItemUp\<close> for row 0 returns
  without an error; and on three closed clips \<^verbatim>\<open>moveItemUp\<close> for row 0 moves the first
  clip behind the second (\<^verbatim>\<open>insert(-1, ...)\<close> puts it before the last).
\<close>

theorem moveItemUp_unguarded_counterexample:
  "moveItemUp 0 (cutStart 500 None (loadFile init)) = Inr (cutStart 500 None (loadFile init)) \<and>
   moveItemUp 0 (init\<lparr>clipTimes := three_clips\<rparr>) =
     Inr (init\<lparr>clipTimes := [three_clips ! 1, three_clips ! 0, three_clips ! 2],
              cliplist_count := 3, saveAction := True\<rparr>)"
  by (simp add: moveItemUp_def cutStart_def loadFile_def init_def initMediaControls_def
      renderTimes_def py_getitem_def py_delitem_def py_insert_def py_index_def Let_def
      three_clips_def)

text \<open>
  C7, amended. The lock is in the context menu, the only place that enables the two
  actions: \<^verbatim>\<open>itemMenu\<close> leaves `Move Up' disabled when the row is 0 or none, or \<^verbatim>\<open>inCut\<close>
  is true, and `Move Down' disabled when the row is the last or none, or \<^verbatim>\<open>inCut\<close> is
  true. Choosing a disabled entry runs nothing: the clips stay as they are and no error
  is reported. In particular `Move Up' for row 0 after \<^verbatim>\<open>cutStart\<close> at 500 ms on an
  empty list changes nothing.
\<close>

theorem context_menu_locks_moves:
  "(index \<le> 0 \<or> inCut s \<longrightarrow> chooseMoveUp index s = Inr (itemMenu index s)) \<and>
   (index = - 1 \<or> cliplist_count s - 1 \<le> index \<or> inCut s \<longrightarrow>
      chooseMoveDown index s = Inr (itemMenu index s)) \<and>
   clipTimes (itemMenu index s) = clipTimes s \<and> inCut (itemMenu index s) = inCut s"
  by (auto simp: chooseMoveUp_def chooseMoveDown_def Let_def itemMenu_up itemMenu_down
      itemMenu_fields)

theorem context_menu_locks_moves_witness:
  "(0::int) \<le> 0 \<and> inCut (cutStart 500 None (loadFile init)) \<and>
   chooseMoveUp 0 (cutStart 500 None (loadFile init)) =
     Inr (itemMenu 0 (cutStart 500 None (loadFile init))) \<and>
   chooseMoveDown 0 (cutStart 500 None (loadFile init)) =
     Inr (itemMenu 0 (cutStart 500 None (loadFile init))) \<and>
   clipTimes (itemMenu 0 (cutStart 500 None (loadFile init))) =
     clipTimes (cutStart 500 None (loadFile init))"
  using context_menu_locks_moves [of 0 "cutStart 500 None (loadFile init)"]
  by (simp add: cutStart_def renderTimes_def Let_def)

subsection \<open>An end marker on the start marker\<close>

text \<open>
  C3. \<^verbatim>\<open>cutEnd\<close> turns the end down only when it is before the start
  (\<^verbatim>\<open>selected.__lt__(item[0])\<close>), though its message says that the end must come after
  the start. With the start at 1000 ms, \<^verbatim>\<open>cutEnd\<close> at 1000 ms closes the clip with an
  end equal to its start, clears \<^verbatim>\<open>inCut\<close> and enables `Save'.
\<close>

theorem cutEnd_at_start_closes:
  "cutEnd 1000 (cutStart 1000 None (loadFile init)) =
     Inr (init\<lparr>clipTimes :=
                [\<lparr>clip_start = Mds 1000, clip_end = Some (Mds 1000), clip_thumb = None\<rparr>],
              cliplist_count := 1, saveAction := True, cutStartAction := True\<rparr>)"
  by (simp add: cutEnd_def cutStart_def loadFile_def init_def initMediaControls_def
      renderTimes_def py_getitem_def py_index_def Let_def deltaToQTime_1000 qtime_lt_def)

subsection \<open>Milliseconds through \<^verbatim>\<open>deltaToQTime\<close>\<close>

text \<open>
  C9. \<^verbatim>\<open>deltaToQTime\<close> divides with \<^verbatim>\<open>/\<close>, which yields a float, and the product
  \<^verbatim>\<open>secs * 1000\<close> of 1001 ms is just below 1001: the time built is 00:00:01.000, a
  millisecond short. The hours are taken modulo 60, so 60 hours come out as midnight.
\<close>

theorem deltaToQTime_loses_millisecond:
  "deltaToQTime 1001 = QTime 0 0 1 0 \<and> recombine (deltaToQTime 1001) = 1000 \<and>
   deltaToQTime 216000000 = QTime 0 0 0 0 \<and> recombine (deltaToQTime 216000000) = 0"
  by (simp add: deltaToQTime_1001 deltaToQTime_60h QTime_def recombine_def hour_def minute_def
      second_def msec_def isValid_def)

subsection \<open>The open clip under Set Start and Set End\<close>

lemma open_clips_butlast_closed:
  assumes "\<forall>c \<in> set (butlast xs). clip_end c \<noteq> None"
  shows "open_clips xs = (if xs \<noteq> [] \<and> clip_end (last xs) = None then [length xs - 1] else [])"
proof (cases xs rule: rev_cases)
  case Nil
  then show ?thesis by (simp add: open_clips_def)
next
  case (snoc ys l)
  with assms have closed: "\<forall>c \<in> set ys. clip_end c \<noteq> None" by simp
  have "filter (\<lambda>i. clip_end ((ys @ [l]) ! i) = None) [0..<length ys] = []"
    using closed by (auto simp: filter_empty_conv nth_append)
  then show ?thesis
    using snoc by (simp add: open_clips_def)
qed

lemma consistent_pinned: "consistent s \<Longrightarrow> pinned (clipTimes s)"
  by (simp add: consistent_def pinned_def open_clips_butlast_closed)

lemma consistent_inCut: "consistent s \<Longrightarrow> inCut s = (open_clips (clipTimes s) \<noteq> [])"
  by (simp add: consistent_def open_clips_butlast_closed)

lemma consistent_loadFile: "consistent (loadFile init)"
  by (simp add: consistent_def loadFile_def init_def initMediaControls_def)

lemma consistent_cutStart:
  assumes "consistent s" and "cutStartAction s"
  shows "consistent (cutStart position thumb s)"
proof -
  from assms have "\<not> inCut s" unfolding consistent_def by blast
  with assms have "\<forall>c \<in> set (clipTimes s). clip_end c \<noteq> None"
    by (cases "clipTimes s" rule: rev_cases) (auto simp: consistent_def)
  then show ?thesis
    by (simp add: consistent_def cutStart_def renderTimes_fields)
qed

lemma consistent_cutEnd:
  assumes "consistent s" and "cutEnd position s = Inr s'"
  shows "consistent s'"
proof (cases "clipTimes s" rule: rev_cases)
  case Nil
  with assms show ?thesis
    by (simp add: cutEnd_def py_getitem_def py_index_def)
next
  case (snoc ys l)
  then have "py_getitem (clipTimes s) (int (length (clipTimes s)) - 1) = Inr l"
    by (simp add: py_getitem_def py_index_def Let_def)
  with assms snoc show ?thesis
    by (auto simp: cutEnd_def Let_def consistent_def renderTimes_fields split: if_splits)
qed

lemma consistent_mousePressEvent:
  "consistent s \<Longrightarrow> mousePressEvent b position thumb s = Inr s' \<Longrightarrow> consistent s'"
  by (auto simp: mousePressEvent_def consistent_cutStart consistent_cutEnd split: if_splits)

lemma consistent_presses: "consistent s \<Longrightarrow> consistent (presses es s)"
proof (induction es arbitrary: s)
  case Nil
  then show ?case by simp
next
  case (Cons e es)
  obtain b position thumb where e: "e = (b, position, thumb)" by (cases e)
  show ?case
  proof (cases "mousePressEvent b position thumb s")
    case (Inl err)
    with Cons e show ?thesis by simp
  next
    case (Inr s')
    from consistent_mousePressEvent [OF Cons.prems Inr] have "consistent s'" .
    with Cons.IH Inr e show ?thesis by simp
  qed
qed

text \<open>
  C2, as the claim states it, fails: \<^verbatim>\<open>cutStart\<close> has no test and no way to fail. Called
  at 600 ms while the clip started at 500 ms is still open, it appends a second open
  clip, and the first open clip is no longer the last.
\<close>

theorem cutStart_unguarded_counterexample:
  "clipTimes (cutStart 600 None (cutStart 500 None (loadFile init))) =
     [\<lparr>clip_start = deltaToQTime 500, clip_end = None, clip_thumb = None\<rparr>,
      \<lparr>clip_start = deltaToQTime 600, clip_end = None, clip_thumb = None\<rparr>] \<and>
   open_clips (clipTimes (cutStart 600 None (cutStart 500 None (loadFile init)))) = [0, 1] \<and>
   \<not> pinned (clipTimes (cutStart 600 None (cutStart 500 None (loadFile init))))"
  by (simp add: cutStart_def renderTimes_fields loadFile_def init_def pinned_def open_clips_def
      upt_rec)

text \<open>
  C2, amended. The guard is the enabled flag of the two actions, which \<^verbatim>\<open>mousePressEvent\<close>
  tests before it calls \<^verbatim>\<open>cutStart\<close> or \<^verbatim>\<open>cutEnd\<close> (and without which the tool bar does not
  fire). For every sequence of `Set Start' and `Set End' requests that pass this guard,
  from a freshly loaded file, at most one clip is open and an open clip is the last;
  \<^verbatim>\<open>inCut\<close> is true exactly when a clip is open; and a `Set Start' request while a clip
  is open is dropped: nothing is appended and no error is reported.
\<close>

theorem presses_keep_open_clip_last:
  "pinned (clipTimes (presses es (loadFile init))) \<and>
   inCut (presses es (loadFile init)) =
     (open_clips (clipTimes (presses es (loadFile init))) \<noteq> []) \<and>
   (inCut (presses es (loadFile init)) \<longrightarrow>
      mousePressEvent BackButton position thumb (presses es (loadFile init)) =
        Inr (presses es (loadFile init)))"
proof -
  have c: "consistent (presses es (loadFile init))"
    by (rule consistent_presses) (rule consistent_loadFile)
  then have "inCut (presses es (loadFile init)) \<Longrightarrow>
      \<not> cutStartAction (presses es (loadFile init))"
    by (simp add: consistent_def)
  with c show ?thesis
    by (simp add: consistent_pinned consistent_inCut [symmetric] mousePressEvent_def)
qed

theorem presses_keep_open_clip_last_witness:
  "pinned (clipTimes (presses [(BackButton, 500, None)] (loadFile init))) \<and>
   inCut (presses [(BackButton, 500, None)] (loadFile init)) \<and>
   open_clips (clipTimes (presses [(BackButton, 500, None)] (loadFile init))) = [0] \<and>
   mousePressEvent BackButton 600 None (presses [(BackButton, 500, None)] (loadFile init)) =
     Inr (presses [(BackButton, 500, None)] (loadFile init))"
  using presses_keep_open_clip_last [of "[(BackButton, 500, None)]" 600 None]
  by (simp add: mousePressEvent_def cutStart_def renderTimes_fields loadFile_def init_def
      initMediaControls_def open_clips_def)

subsection \<open>The export at given names and times\<close>

lemma splitext_out: "splitext ''/v/out.mp4'' = (''/v/out'', ''.mp4'')"
  by code_simp

lemma clip_name_out_1: "clip_name ''/v/out'' ''.mp4'' (Suc 0) = ''/v/out_01.mp4''"
  by code_simp

lemma clip_name_out_2: "clip_name ''/v/out'' ''.mp4'' (Suc (Suc 0)) = ''/v/out_02.mp4''"
  by code_simp

lemma list_file_out: "normpath (path_join (dirname ''/v/out_01.mp4'') ''.vidcutter.list'') = ''/v/.vidcutter.list''"
  by code_simp

lemma times:
  "deltaToQTime 0 = Mds 0" "deltaToQTime 500 = Mds 500" "deltaToQTime 2000 = Mds 2000"
  "deltaToQTime 2500 = Mds 2500" "deltaToQTime 3000 = Mds 3000" "deltaToQTime 5000 = Mds 5000"
  by code_simp+

lemma strings:
  "toString (Mds 0) = ''00:00:00''" "toString (Mds 500) = ''00:00:00''"
  "toString (Mds 1000) = ''00:00:01''" "toString (Mds 2000) = ''00:00:02''"
  "toString (Mds 3000) = ''00:00:03''"
  by code_simp+

lemma durations:
  "msecsTo (Mds 0) (Mds 1000) = 1000" "msecsTo (Mds 2000) (Mds 2500) = 500"
  "msecsTo (Mds 2000) (Mds 5000) = 3000"
  by (simp_all add: msecsTo_def isValid_def)

lemma clip_name_1: "clip_name file ext (Suc 0) = file @ ''_01'' @ ext"
  by (simp add: clip_name_def rjust2_def digit_char_def)

lemma clip_name_2: "clip_name file ext (Suc (Suc 0)) = file @ ''_02'' @ ext"
  by (simp add: clip_name_def rjust2_def digit_char_def)

subsection \<open>Save while a clip is open\<close>

text \<open>
  C4. \<^verbatim>\<open>renderTimes\<close> enables `Save' when the list is not empty and \<^verbatim>\<open>inCut\<close> is false, and
  disables it only when the list is empty or the first clip has no end. After
  \<^verbatim>\<open>cutStart\<close> at 0 ms, \<^verbatim>\<open>cutEnd\<close> at 1000 ms and \<^verbatim>\<open>cutStart\<close> at 2000 ms the second clip is
  open and `Save' is still enabled; \<^verbatim>\<open>cutVideo\<close>, which tests only that the list is not
  empty, then trims the first clip and raises \<^verbatim>\<open>TypeError\<close> at the second.
\<close>

theorem save_enabled_with_open_clip:
  "presses [(BackButton, 0, None), (ForwardButton, 1000, None), (BackButton, 2000, None)]
     (loadFile init) =
     init\<lparr>clipTimes :=
            [\<lparr>clip_start = Mds 0, clip_end = Some (Mds 1000), clip_thumb = None\<rparr>,
             \<lparr>clip_start = Mds 2000, clip_end = None, clip_thumb = None\<rparr>],
          inCut := True, cliplist_count := 2, saveAction := True, cutEndAction := True\<rparr> \<and>
   cutVideo be ''/v/in.mp4'' ''/v/out.mp4''
     (presses [(BackButton, 0, None), (ForwardButton, 1000, None), (BackButton, 2000, None)]
        (loadFile init)) w =
     (Inl TypeError,
      init\<lparr>clipTimes :=
            [\<lparr>clip_start = Mds 0, clip_end = Some (Mds 1000), clip_thumb = None\<rparr>,
             \<lparr>clip_start = Mds 2000, clip_end = None, clip_thumb = None\<rparr>],
          inCut := True, cliplist_count := 2, saveAction := True, cutEndAction := True,
          finalFilename := ''/v/out.mp4''\<rparr>,
      videoService_cut be ''/v/in.mp4'' ''/v/out_01.mp4'' ''00:00:00'' ''00:00:01'' w)"
proof -
  have run: "presses [(BackButton, 0, None), (ForwardButton, 1000, None), (BackButton, 2000, None)]
     (loadFile init) =
     init\<lparr>clipTimes :=
            [\<lparr>clip_start = Mds 0, clip_end = Some (Mds 1000), clip_thumb = None\<rparr>,
             \<lparr>clip_start = Mds 2000, clip_end = None, clip_thumb = None\<rparr>],
          inCut := True, cliplist_count := 2, saveAction := True, cutEndAction := True\<rparr>"
    by (simp add: mousePressEvent_def cutStart_def cutEnd_def loadFile_def init_def
        initMediaControls_def renderTimes_def py_getitem_def py_index_def Let_def times
        deltaToQTime_1000 qtime_lt_def)
  show ?thesis
    unfolding run
    by (simp add: cutVideo_def init_def splitext_out clip_name_out_1 strings durations
        deltaToQTime_1000 Let_def)
qed

subsection \<open>The trims and the join of an export\<close>

lemma clip_names_0: "clip_names file ext i 0 = []"
  by (simp add: clip_names_def)

lemma clip_names_Suc:
  "clip_names file ext i (Suc n) = clip_name file ext i # clip_names file ext (Suc i) n"
  by (simp add: clip_names_def upt_rec)

lemma length_clip_names: "length (clip_names file ext i n) = n"
  by (simp add: clip_names_def)

lemma splitext_append: "splitext p = (f, e) \<Longrightarrow> f @ e = p"
  by (auto simp: splitext_def Let_def split: if_splits)

lemma clip_name_not_chosen: "clip_name file ext i \<noteq> file @ ext"
  by (simp add: clip_name_def)

text \<open>
  C5. With the single clip from 2000 ms to 5000 ms, whatever its thumbnail, and a name
  chosen in the save dialog, the export makes one call of the backend: the trim of
  00:00:03 (the 3000 ms from the start to the end) from 00:00:02 into the chosen name
  with \<^verbatim>\<open>_01\<close> before its extension. Then it removes the file of the chosen name and
  renames the trimmed file to it; there is no join. When the trim succeeds, the chosen
  name exists afterwards and the intermediate file does not.
\<close>

theorem cutVideo_single_clip:
  assumes "clipTimes s = [\<lparr>clip_start = deltaToQTime 2000, clip_end = Some (deltaToQTime 5000),
                            clip_thumb = thumb\<rparr>]"
      and "chosen \<noteq> []" and "splitext chosen = (file, ext)"
  shows "msecsTo (deltaToQTime 2000) (deltaToQTime 5000) = 3000 \<and>
         toString (deltaToQTime 3000) = ''00:00:03'' \<and>
         file @ ext = chosen \<and>
         cutVideo be source chosen s w =
           (Inr True, s\<lparr>finalFilename := chosen\<rparr>,
            QFile_rename (file @ ''_01'' @ ext) chosen
              (QFile_remove chosen
                 (videoService_cut be source (file @ ''_01'' @ ext) ''00:00:02'' ''00:00:03'' w))) \<and>
         journal (snd (snd (cutVideo be source chosen s w))) =
           journal w @ [Cut source (file @ ''_01'' @ ext) ''00:00:02'' ''00:00:03'',
                        QFileRemove chosen, QFileRename (file @ ''_01'' @ ext) chosen] \<and>
         backend_calls (journal (snd (snd (cutVideo be source chosen s w)))) =
           backend_calls (journal w) @ [Cut source (file @ ''_01'' @ ext) ''00:00:02'' ''00:00:03''] \<and>
         (cut_ok be source (file @ ''_01'' @ ext) ''00:00:02'' ''00:00:03'' \<longrightarrow>
            files (snd (snd (cutVideo be source chosen s w))) =
              insert chosen (files w - {file @ ''_01'' @ ext}))"
proof -
  have app: "file @ ext = chosen" by (rule splitext_append [OF assms(3)])
  have ne: "file @ ''_01'' @ ext \<noteq> chosen"
    using app clip_name_not_chosen [of "file" ext "Suc 0"] by (simp add: clip_name_1)
  have run: "cutVideo be source chosen s w =
           (Inr True, s\<lparr>finalFilename := chosen\<rparr>,
            QFile_rename (file @ ''_01'' @ ext) chosen
              (QFile_remove chosen
                 (videoService_cut be source (file @ ''_01'' @ ext) ''00:00:02'' ''00:00:03'' w)))"
    using assms by (simp add: cutVideo_def Let_def clip_name_1 times strings durations)
  show ?thesis
    unfolding run using ne app
    by (auto simp: times strings durations QFile_rename_def QFile_remove_def videoService_cut_def
        backend_calls_def)
qed

theorem cutVideo_single_clip_witness:
  "clipTimes (presses [(BackButton, 2000, None), (ForwardButton, 5000, None)] (loadFile init)) =
     [\<lparr>clip_start = deltaToQTime 2000, clip_end = Some (deltaToQTime 5000), clip_thumb = None\<rparr>] \<and>
   ''/v/out.mp4'' \<noteq> [] \<and> splitext ''/v/out.mp4'' = (''/v/out'', ''.mp4'') \<and>
   cut_ok reliable ''/v/in.mp4'' ''/v/out_01.mp4'' ''00:00:02'' ''00:00:03'' \<and>
   cutVideo reliable ''/v/in.mp4'' ''/v/out.mp4''
     (presses [(BackButton, 2000, None), (ForwardButton, 5000, None)] (loadFile init))
     \<lparr>files = {''/v/in.mp4'', ''/v/out.mp4''}, journal = []\<rparr> =
     (Inr True,
      presses [(BackButton, 2000, None), (ForwardButton, 5000, None)] (loadFile init)
        \<lparr>finalFilename := ''/v/out.mp4''\<rparr>,
      \<lparr>files = {''/v/out.mp4'', ''/v/in.mp4''},
       journal = [Cut ''/v/in.mp4'' ''/v/out_01.mp4'' ''00:00:02'' ''00:00:03'',
                  QFileRemove ''/v/out.mp4'',
                  QFileRename ''/v/out_01.mp4'' ''/v/out.mp4'']\<rparr>)"
proof -
  have run: "presses [(BackButton, 2000, None), (ForwardButton, 5000, None)] (loadFile init) =
     init\<lparr>clipTimes :=
            [\<lparr>clip_start = deltaToQTime 2000, clip_end = Some (deltaToQTime 5000),
               clip_thumb = None\<rparr>],
          cliplist_count := 1, saveAction := True, cutStartAction := True\<rparr>"
    by (simp add: mousePressEvent_def cutStart_def cutEnd_def loadFile_def init_def
        initMediaControls_def renderTimes_def py_getitem_def py_index_def Let_def times
        qtime_lt_def)
  show ?thesis
    using cutVideo_single_clip [of
        "presses [(BackButton, 2000, None), (ForwardButton, 5000, None)] (loadFile init)"
        None "''/v/out.mp4''" "''/v/out''" "''.mp4''" reliable "''/v/in.mp4''"
        "\<lparr>files = {''/v/in.mp4'', ''/v/out.mp4''}, journal = []\<rparr>"]
    unfolding run
    by (simp add: splitext_out reliable_def QFile_rename_def QFile_remove_def
        videoService_cut_def insert_Diff_if)
qed

subsection \<open>The whole of an export\<close>

lemma digit_value_digit_char: "d < 10 \<Longrightarrow> digit_value (digit_char d) = d"
proof -
  assume "d < 10"
  then consider "d = 0" | "d = 1" | "d = 2" | "d = 3" | "d = 4" | "d = 5" | "d = 6" | "d = 7"
    | "d = 8" | "d = 9"
    by atomize_elim presburger
  then show ?thesis
    by cases (simp_all add: digit_value_def digit_char_def)
qed

lemma decimal_value_decimal: "decimal_value (decimal n) = n"
proof (induction n rule: decimal.induct)
  case (1 n)
  show ?case
  proof (cases "n < 10")
    case True
    then show ?thesis
      by (subst decimal.simps) (simp add: decimal_value_def digit_value_digit_char)
  next
    case False
    with 1 have "decimal_value (decimal (n div 10)) = n div 10" by simp
    with False show ?thesis
      by (subst decimal.simps) (simp add: decimal_value_def digit_value_digit_char)
  qed
qed

lemma decimal_value_zeros: "foldl (\<lambda>a c. 10 * a + digit_value c) 0 (replicate k (CHR ''0'')) = 0"
  by (induction k) (simp_all add: digit_value_def)

lemma decimal_value_rjust2: "decimal_value (rjust2 s) = decimal_value s"
  by (simp add: decimal_value_def rjust2_def decimal_value_zeros)

lemma clip_name_inj: "clip_name file ext i = clip_name file ext j \<Longrightarrow> i = j"
proof -
  assume "clip_name file ext i = clip_name file ext j"
  then have "rjust2 (decimal i) = rjust2 (decimal j)"
    by (simp add: clip_name_def del: decimal.simps)
  then have "decimal_value (rjust2 (decimal i)) = decimal_value (rjust2 (decimal j))"
    by (simp del: decimal.simps)
  then show "i = j"
    by (simp add: decimal_value_rjust2 decimal_value_decimal del: decimal.simps)
qed

lemma distinct_clip_names: "distinct (clip_names file ext i n)"
  by (auto simp: clip_names_def distinct_map inj_on_def dest: clip_name_inj)

lemma remove_files_distinct:
  "distinct fs \<Longrightarrow>
   remove_files fs w =
     (True, w\<lparr>files := files w - set fs,
              journal := journal w @ map OsRemove (filter (\<lambda>f. f \<in> files w) fs)\<rparr>)"
proof (induction fs arbitrary: w)
  case Nil
  show ?case by simp
next
  case (Cons f fs)
  then have d: "distinct fs" and nf: "f \<notin> set fs" by simp_all
  show ?case
  proof (cases "f \<in> files w")
    case True
    let ?w1 = "w\<lparr>files := files w - {f}, journal := journal w @ [OsRemove f]\<rparr>"
    have same: "filter (\<lambda>g. g \<in> files ?w1) fs = filter (\<lambda>g. g \<in> files w) fs"
      using nf by (auto intro: filter_cong)
    have "files w - {f} - set fs = files w - insert f (set fs)" by auto
    then show ?thesis
      using True Cons.IH [OF d, of ?w1] same by (simp add: os_remove_def)
  next
    case False
    then have "files w - set fs = files w - insert f (set fs)" by auto
    then show ?thesis
      using False Cons.IH [OF d, of w] by simp
  qed
qed

lemma cut_clips_exact:
  assumes "\<forall>c \<in> set cs. clip_end c \<noteq> None"
  shows "cut_clips be source file ext i cs (fn, fl, w) =
           (None, last (fn # clip_names file ext i (length cs)),
            fl @ clip_names file ext i (length cs),
            w\<lparr>files := files w \<union> set (cut_outputs be source file ext i cs),
              journal := journal w @ cut_calls source file ext i cs\<rparr>)"
  using assms
proof (induction cs arbitrary: i fn fl w)
  case Nil
  then show ?case by (simp add: clip_names_0 cut_calls_def cut_outputs_def)
next
  case (Cons c cs)
  then obtain e where e: "clip_end c = Some e" by auto
  from Cons.prems have closed: "\<forall>c \<in> set cs. clip_end c \<noteq> None" by simp
  show ?case
    by (simp add: e Let_def Cons.IH [OF closed] clip_names_Suc cut_calls_def cut_outputs_def
        videoService_cut_def cut_call_def Un_commute insert_commute)
qed

lemma list_text_lines:
  "list_text joinlist =
     concat (map (\<lambda>f. ''file '' @ [CHR 0x27] @
                      concat (map (\<lambda>c. if c = CHR 0x27 then [CHR 0x5C, CHR 0x27] else [c]) f) @
                      [CHR 0x27, CHR 0x0A]) joinlist)"
  by (simp add: list_text_def quote_file_def)

lemma joinVideos_exact:
  assumes "distinct joinlist" and "joinlist \<noteq> []"
  shows "joinVideos be joinlist filename w =
     (None,
      w\<lparr>files := (files w \<union> (if join_ok be (list_file (hd joinlist)) filename then {filename} else {}))
                   - {list_file (hd joinlist)} - set joinlist,
        journal := journal w @
          [WriteList (list_file (hd joinlist)) (list_text joinlist),
           Join (list_file (hd joinlist)) filename,
           OsRemove (list_file (hd joinlist))] @
          map OsRemove
            (filter (\<lambda>f. f \<in> (files w \<union> (if join_ok be (list_file (hd joinlist)) filename
                                             then {filename} else {}))
                              - {list_file (hd joinlist)}) joinlist)\<rparr>)"
proof -
  from assms(2) obtain first rest where jl: "joinlist = first # rest" by (cases joinlist) auto
  let ?lf = "list_file first"
  let ?w2 = "videoService_join be ?lf filename (write_list ?lf (list_text joinlist) w)"
  let ?w3 = "?w2\<lparr>files := files ?w2 - {?lf}, journal := journal ?w2 @ [OsRemove ?lf]\<rparr>"
  have f3: "files ?w3 = (files w \<union> (if join_ok be ?lf filename then {filename} else {})) - {?lf}"
    by (auto simp: videoService_join_def write_list_def)
  have j3: "journal ?w3 = journal w @
      [WriteList ?lf (list_text joinlist), Join ?lf filename, OsRemove ?lf]"
    by (simp add: videoService_join_def write_list_def)
  have in2: "?lf \<in> files ?w2"
    by (simp add: videoService_join_def write_list_def)
  have "joinVideos be joinlist filename w = (None, snd (remove_files joinlist ?w3))"
    using in2 unfolding jl by (simp add: joinVideos_def Let_def os_remove_def list_file_def)
  also have "snd (remove_files joinlist ?w3) =
      ?w3\<lparr>files := files ?w3 - set joinlist,
           journal := journal ?w3 @ map OsRemove (filter (\<lambda>f. f \<in> files ?w3) joinlist)\<rparr>"
    by (simp only: remove_files_distinct [OF assms(1)] snd_conv)
  finally show ?thesis
    unfolding f3 j3 unfolding jl by simp
qed

text \<open>
  C1, as the claim states it, fails. With the clips from 0 to 1000 ms and from 2000 to
  2500 ms and a backend whose second trim fails, the export still writes the list file
  and calls the join, removes the list file and the first intermediate file as it does
  after every join, and returns \<^verbatim>\<open>True\<close>: no failure is reported, and the output of the
  join is at the chosen name.
\<close>

theorem cutVideo_failed_trim_counterexample:
  "cutVideo (failing_at ''/v/out_02.mp4'') ''/v/in.mp4'' ''/v/out.mp4''
     (init\<lparr>clipTimes := [closed_clip 0 1000, closed_clip 2000 2500]\<rparr>)
     \<lparr>files = {''/v/in.mp4''}, journal = []\<rparr> =
   (Inr True,
    init\<lparr>clipTimes := [closed_clip 0 1000, closed_clip 2000 2500], finalFilename := ''/v/out.mp4''\<rparr>,
    \<lparr>files = {''/v/out.mp4'', ''/v/in.mp4''},
     journal =
       [Cut ''/v/in.mp4'' ''/v/out_01.mp4'' ''00:00:00'' ''00:00:01'',
        Cut ''/v/in.mp4'' ''/v/out_02.mp4'' ''00:00:02'' ''00:00:00'',
        WriteList ''/v/.vidcutter.list''
          (''file '' @ [CHR 0x27] @ ''/v/out_01.mp4'' @ [CHR 0x27, CHR 0x0A] @
           ''file '' @ [CHR 0x27] @ ''/v/out_02.mp4'' @ [CHR 0x27, CHR 0x0A]),
        Join ''/v/.vidcutter.list'' ''/v/out.mp4'',
        OsRemove ''/v/.vidcutter.list'',
        OsRemove ''/v/out_01.mp4'']\<rparr>)"
  by (simp add: cutVideo_def init_def splitext_out clip_name_out_1 clip_name_out_2 closed_clip_def
      times deltaToQTime_1000 strings durations joinVideos_def list_file_out videoService_cut_def
      videoService_join_def failing_at_def write_list_def os_remove_def list_text_def
      quote_file_def Let_def insert_Diff_if)

text \<open>
  C1, amended. The export takes no notice of a trim that fails (a failed call of the
  backend being one that returns). For every list of closed clips, every chosen name and
  every backend, that is, whichever trims fail, \<^verbatim>\<open>cutVideo\<close> returns \<^verbatim>\<open>True\<close> and does
  exactly this, in this order: one trim for each clip in the order of the list; then,
  for one clip, it removes the file of the chosen name and renames the intermediate file
  to it, which moves a file only when the intermediate file exists; for two or more
  clips, it writes the list file, a line \<^verbatim>\<open>file '...'\<close> for each intermediate file in the
  order of the list, calls the join, removes the list file and removes each
  intermediate file that exists. Nothing else is removed, and no failure or step is
  reported.
\<close>

theorem cutVideo_ignores_failed_trims:
  assumes "clipTimes s \<noteq> []" and "\<forall>c \<in> set (clipTimes s). clip_end c \<noteq> None"
      and "chosen \<noteq> []" and "splitext chosen = (file, ext)"
  shows "cutVideo be source chosen s w =
     (let n = length (clipTimes s);
          names = clip_names file ext 1 n;
          first = clip_name file ext 1;
          lf = list_file first;
          made = set (cut_outputs be source file ext 1 (clipTimes s));
          joined = (if join_ok be lf chosen then {chosen} else {})
      in (Inr True, s\<lparr>finalFilename := chosen\<rparr>,
          w\<lparr>files :=
               (if 1 < n then (files w \<union> joined) - {lf} - set names
                else if first \<in> files w \<union> made then insert chosen (files w - {first})
                else files w - {chosen}),
            journal := journal w @ cut_calls source file ext 1 (clipTimes s) @
               (if 1 < n
                then [WriteList lf
                        (concat (map (\<lambda>f. ''file '' @ [CHR 0x27] @
                            concat (map (\<lambda>c. if c = CHR 0x27 then [CHR 0x5C, CHR 0x27] else [c]) f) @
                            [CHR 0x27, CHR 0x0A]) names)),
                      Join lf chosen, OsRemove lf] @
                     map OsRemove (filter (\<lambda>f. f \<in> (files w \<union> made \<union> joined) - {lf}) names)
                else [QFileRemove chosen, QFileRename first chosen])\<rparr>))"
proof -
  let ?n = "length (clipTimes s)"
  let ?names = "clip_names file ext 1 ?n"
  let ?first = "clip_name file ext 1"
  let ?made = "set (cut_outputs be source file ext 1 (clipTimes s))"
  let ?w1 = "w\<lparr>files := files w \<union> ?made,
      journal := journal w @ cut_calls source file ext 1 (clipTimes s)\<rparr>"
  have loop: "cut_clips be source file ext 1 (clipTimes s) ([], [], w) =
      (None, last ([] # ?names), ?names, ?w1)"
    using cut_clips_exact [OF assms(2), of be source "file" ext 1 "[]" "[]" w] by simp
  have nne: "?names \<noteq> []"
    using assms(1) by (cases "clipTimes s") (simp_all add: clip_names_Suc)
  have hd: "hd ?names = ?first"
    using assms(1) by (cases "clipTimes s") (simp_all add: clip_names_Suc)
  have made: "?made \<subseteq> set ?names"
    by (auto simp: cut_outputs_def dest: set_zip_leftD)
  have chosen: "clip_name file ext i \<noteq> chosen" for i
    using splitext_append [OF assms(4)] by (metis clip_name_not_chosen)
  show ?thesis
  proof (cases "1 < ?n")
    case True
    have run: "cutVideo be source chosen s w =
        (case joinVideos be ?names chosen ?w1 of
           (Some e, w2) \<Rightarrow> (Inl e, s\<lparr>finalFilename := chosen\<rparr>, w2)
         | (None, w2) \<Rightarrow> (Inr True, s\<lparr>finalFilename := chosen\<rparr>, w2))"
      using assms(1,3,4) loop True nne by (simp add: cutVideo_def Let_def length_clip_names)
    have "(files w \<union> ?made \<union> A) - B - set ?names = (files w \<union> A) - B - set ?names" for A B
      using made by auto
    then show ?thesis
      using True unfolding run joinVideos_exact [OF distinct_clip_names nne] hd list_text_lines
      by (simp add: Let_def Un_assoc)
  next
    case False
    then have one: "?names = [?first]"
      using assms(1) by (cases "clipTimes s") (auto simp: clip_names_def)
    have run: "cutVideo be source chosen s w =
        (Inr True, s\<lparr>finalFilename := chosen\<rparr>,
         QFile_rename ?first chosen (QFile_remove chosen ?w1))"
      using assms(1,3,4) loop False one by (simp add: cutVideo_def Let_def length_clip_names)
    have m1: "?made \<subseteq> {?first}" using made one by simp
    have f1: "?first \<in> files w \<union> ?made \<Longrightarrow>
        insert chosen ((files w \<union> ?made) - {chosen} - {?first}) = insert chosen (files w - {?first})"
      using m1 by auto
    have f2: "?first \<notin> files w \<union> ?made \<Longrightarrow> (files w \<union> ?made) - {chosen} = files w - {chosen}"
      using m1 by auto
    show ?thesis
      using False chosen [of 1] f1 f2 unfolding run
      by (simp add: Let_def QFile_rename_def QFile_remove_def)
  qed
qed

theorem cutVideo_ignores_failed_trims_witness:
  "clipTimes (init\<lparr>clipTimes := [closed_clip 0 1000, closed_clip 2000 2500]\<rparr>) \<noteq> [] \<and>
   ''/v/out.mp4'' \<noteq> [] \<and> splitext ''/v/out.mp4'' = (''/v/out'', ''.mp4'') \<and>
   \<not> cut_ok (failing_at ''/v/out_01.mp4'') ''/v/in.mp4'' ''/v/out_01.mp4'' ''00:00:00'' ''00:00:01'' \<and>
   cutVideo (failing_at ''/v/out_01.mp4'') ''/v/in.mp4'' ''/v/out.mp4''
     (init\<lparr>clipTimes := [closed_clip 0 1000, closed_clip 2000 2500]\<rparr>)
     \<lparr>files = {''/v/in.mp4''}, journal = []\<rparr> =
   (Inr True,
    init\<lparr>clipTimes := [closed_clip 0 1000, closed_clip 2000 2500], finalFilename := ''/v/out.mp4''\<rparr>,
    \<lparr>files = {''/v/out.mp4'', ''/v/in.mp4''},
     journal =
       [Cut ''/v/in.mp4'' ''/v/out_01.mp4'' ''00:00:00'' ''00:00:01'',
        Cut ''/v/in.mp4'' ''/v/out_02.mp4'' ''00:00:02'' ''00:00:00'',
        WriteList ''/v/.vidcutter.list''
          (''file '' @ [CHR 0x27] @ ''/v/out_01.mp4'' @ [CHR 0x27, CHR 0x0A] @
           ''file '' @ [CHR 0x27] @ ''/v/out_02.mp4'' @ [CHR 0x27, CHR 0x0A]),
        Join ''/v/.vidcutter.list'' ''/v/out.mp4'',
        OsRemove ''/v/.vidcutter.list'',
        OsRemove ''/v/out_02.mp4'']\<rparr>)"
proof -
  have closed: "\<forall>c \<in> set (clipTimes (init\<lparr>clipTimes := [closed_clip 0 1000, closed_clip 2000 2500]\<rparr>)).
      clip_end c \<noteq> None"
    by (simp add: closed_clip_def)
  show ?thesis
    using cutVideo_ignores_failed_trims [OF _ closed _ splitext_out,
        of "failing_at ''/v/out_01.mp4''" "''/v/in.mp4''" "\<lparr>files = {''/v/in.mp4''}, journal = []\<rparr>"]
    by (simp add: splitext_out failing_at_def cut_calls_def cut_outputs_def clip_names_def
        cut_call_def closed_clip_def times deltaToQTime_1000 strings durations clip_name_out_1
        clip_name_out_2 list_file_def list_file_out upt_rec Let_def insert_Diff_if)
qed

subsection \<open>A chosen name that is the list file's\<close>

lemma splitext_hidden: "splitext ''/v/.vidcutter.list'' = (''/v/.vidcutter'', ''.list'')"
  by code_simp

lemma list_file_hidden:
  "normpath (path_join (dirname ''/v/.vidcutter_01.list'') ''.vidcutter.list'') = ''/v/.vidcutter.list''"
  by code_simp

text \<open>
  C6. \<^verbatim>\<open>joinVideos\<close> puts its list file beside the intermediate files under the fixed name
  \<^verbatim>\<open>.vidcutter.list\<close> and removes it after the join, whatever the chosen name is. With
  two closed clips, a backend that never fails and the chosen name
  \<^verbatim>\<open>/v/.vidcutter.list\<close>, the trims are issued in the order of the list and the join
  once, on a list file that names the two intermediate files in that order; but the
  list file is the chosen name, and the removal that follows the join deletes it: of
  the export no file is left.
\<close>

theorem cutVideo_removes_destination_named_as_list_file:
  "cutVideo reliable ''/v/in.mp4'' ''/v/.vidcutter.list''
     (init\<lparr>clipTimes := [closed_clip 0 1000, closed_clip 2000 2500]\<rparr>)
     \<lparr>files = {''/v/in.mp4''}, journal = []\<rparr> =
   (Inr True,
    init\<lparr>clipTimes := [closed_clip 0 1000, closed_clip 2000 2500],
         finalFilename := ''/v/.vidcutter.list''\<rparr>,
    \<lparr>files = {''/v/in.mp4''},
     journal =
       [Cut ''/v/in.mp4'' ''/v/.vidcutter_01.list'' ''00:00:00'' ''00:00:01'',
        Cut ''/v/in.mp4'' ''/v/.vidcutter_02.list'' ''00:00:02'' ''00:00:00'',
        WriteList ''/v/.vidcutter.list''
          (''file '' @ [CHR 0x27] @ ''/v/.vidcutter_01.list'' @ [CHR 0x27, CHR 0x0A] @
           ''file '' @ [CHR 0x27] @ ''/v/.vidcutter_02.list'' @ [CHR 0x27, CHR 0x0A]),
        Join ''/v/.vidcutter.list'' ''/v/.vidcutter.list'',
        OsRemove ''/v/.vidcutter.list'',
        OsRemove ''/v/.vidcutter_01.list'',
        OsRemove ''/v/.vidcutter_02.list'']\<rparr>)"
  by (simp add: cutVideo_def init_def splitext_hidden clip_name_1 clip_name_2 closed_clip_def
      times deltaToQTime_1000 strings durations joinVideos_def list_file_hidden
      videoService_cut_def videoService_join_def reliable_def write_list_def os_remove_def
      list_text_def quote_file_def Let_def insert_Diff_if)

end
